theory Spec2Isabelle
  imports Complex_Main
begin

section \<open>The cash book web application (webapp.py)\<close>

text \<open>
  This theory embeds two functions of \<^verbatim>\<open>src/webapp.py\<close>: the category recommender
  \<^verbatim>\<open>recommend_category\<close> (with its local function \<^verbatim>\<open>calculate_similarity\<close>) and the balance
  computation \<^verbatim>\<open>calculate_total_amount\<close>. Both read a spreadsheet through openpyxl and
  wrap their whole body in \<^verbatim>\<open>try ... except Exception\<close>.
\<close>

subsection \<open>Python text\<close>

text \<open>
  A Python \<^verbatim>\<open>str\<close> is modelled as a \<^typ>\<open>string\<close> with one \<^typ>\<open>char\<close> per code point, so
  the model covers text whose code points are below 256 (ASCII and Latin-1). On these code
  points \<^verbatim>\<open>str.isspace\<close> holds for U+0009..U+000D, U+001C..U+0020, U+0085 and U+00A0, and
  \<^verbatim>\<open>str.lower\<close> adds 32 to A..Z and to U+00C0..U+00DE except the multiplication sign U+00D7.
\<close>

definition isspace :: "char \<Rightarrow> bool" where
  "isspace c =
     (let n = (of_char c :: nat)
      in (9 \<le> n \<and> n \<le> 13) \<or> (28 \<le> n \<and> n \<le> 32) \<or> n = 133 \<or> n = 160)"

definition lower_char :: "char \<Rightarrow> char" where
  "lower_char c =
     (let n = (of_char c :: nat)
      in if (65 \<le> n \<and> n \<le> 90) \<or> (192 \<le> n \<and> n \<le> 222 \<and> n \<noteq> 215)
         then char_of (n + 32) else c)"

text \<open>\<^verbatim>\<open>s.lower()\<close>\<close>

definition lower :: "string \<Rightarrow> string" where
  "lower s = map lower_char s"

text \<open>\<^verbatim>\<open>s.strip()\<close>: leading and trailing whitespace removed.\<close>

definition strip :: "string \<Rightarrow> string" where
  "strip s = rev (dropWhile isspace (rev (dropWhile isspace s)))"

text \<open>
  \<^verbatim>\<open>s.split()\<close> with no separator: the maximal runs of non-whitespace characters, in order.
  \<open>split_from w cs\<close> scans \<open>cs\<close> with the word read so far in \<open>w\<close> (reversed).
\<close>

fun split_from :: "string \<Rightarrow> string \<Rightarrow> string list" where
  "split_from w [] = (if w = [] then [] else [rev w])"
| "split_from w (c # cs) =
     (if isspace c
      then (if w = [] then split_from [] cs else rev w # split_from [] cs)
      else split_from (c # w) cs)"

definition str_split :: "string \<Rightarrow> string list" where
  "str_split s = split_from [] s"

text \<open>\<^verbatim>\<open>str(n)\<close> for an integer: its decimal digits, with a minus sign when negative.\<close>

function str_nat :: "nat \<Rightarrow> string" where
  "str_nat n =
     (if n < 10 then [char_of (48 + n)]
      else str_nat (n div 10) @ [char_of (48 + n mod 10)])"
  by pat_completeness auto
termination
  by (relation "measure id") auto

definition str_int :: "int \<Rightarrow> string" where
  "str_int i = (if i < 0 then CHR ''-'' # str_nat (nat (- i)) else str_nat (nat i))"

subsection \<open>Python numbers\<close>

text \<open>
  Python's \<^verbatim>\<open>int\<close> is unbounded: \<^typ>\<open>int\<close>. The arithmetic of Python's \<^verbatim>\<open>float\<close>
  is not part of this repository: the type of floats is a type parameter \<open>'f\<close>, and its
  primitives are the fields of a record every function below takes as its first argument.
  \<open>float_of_int\<close> is the conversion that \<^verbatim>\<open>int + float\<close> performs; it raises
  \<^verbatim>\<open>OverflowError\<close> on an integer too large for a float (\<open>None\<close>).
  \<open>float_round2 x\<close> is \<^verbatim>\<open>round(x, 2)\<close>.
\<close>

record 'f float_ops =
  float_add :: "'f \<Rightarrow> 'f \<Rightarrow> 'f"
  float_sub :: "'f \<Rightarrow> 'f \<Rightarrow> 'f"
  float_of_int :: "int \<Rightarrow> 'f option"
  float_round2 :: "'f \<Rightarrow> 'f"
  float_bool :: "'f \<Rightarrow> bool"
  float_str :: "'f \<Rightarrow> string"

datatype py_error = LoadError | IndexError | AttributeError | OverflowError

datatype 'f number = PyInt int | PyFloat 'f

text \<open>\<^verbatim>\<open>a + b\<close> and \<^verbatim>\<open>a - b\<close> on numbers: integer arithmetic on two integers, float
  arithmetic after converting the integer operand otherwise.\<close>

fun py_add :: "'f float_ops \<Rightarrow> 'f number \<Rightarrow> 'f number \<Rightarrow> py_error + 'f number" where
  "py_add P (PyInt a) (PyInt b) = Inr (PyInt (a + b))"
| "py_add P (PyInt a) (PyFloat y) =
     (case float_of_int P a of None \<Rightarrow> Inl OverflowError
      | Some x \<Rightarrow> Inr (PyFloat (float_add P x y)))"
| "py_add P (PyFloat x) (PyInt b) =
     (case float_of_int P b of None \<Rightarrow> Inl OverflowError
      | Some y \<Rightarrow> Inr (PyFloat (float_add P x y)))"
| "py_add P (PyFloat x) (PyFloat y) = Inr (PyFloat (float_add P x y))"

fun py_sub :: "'f float_ops \<Rightarrow> 'f number \<Rightarrow> 'f number \<Rightarrow> py_error + 'f number" where
  "py_sub P (PyInt a) (PyInt b) = Inr (PyInt (a - b))"
| "py_sub P (PyInt a) (PyFloat y) =
     (case float_of_int P a of None \<Rightarrow> Inl OverflowError
      | Some x \<Rightarrow> Inr (PyFloat (float_sub P x y)))"
| "py_sub P (PyFloat x) (PyInt b) =
     (case float_of_int P b of None \<Rightarrow> Inl OverflowError
      | Some y \<Rightarrow> Inr (PyFloat (float_sub P x y)))"
| "py_sub P (PyFloat x) (PyFloat y) = Inr (PyFloat (float_sub P x y))"

text \<open>\<^verbatim>\<open>round(x, 2)\<close>: an integer is returned as it is.\<close>

fun py_round2 :: "'f float_ops \<Rightarrow> 'f number \<Rightarrow> 'f number" where
  "py_round2 P (PyInt a) = PyInt a"
| "py_round2 P (PyFloat x) = PyFloat (float_round2 P x)"

subsection \<open>Spreadsheets\<close>

text \<open>
  A cell value as openpyxl returns it with \<^verbatim>\<open>values_only=True\<close>: \<^verbatim>\<open>None\<close> for an empty
  cell, a \<^verbatim>\<open>str\<close>, an \<^verbatim>\<open>int\<close>, a \<^verbatim>\<open>bool\<close>, a \<^verbatim>\<open>float\<close>, or another object (a date, a
  time, a duration), which is given by its truth value and its \<^verbatim>\<open>str()\<close> text: nothing
  else of it is observed by the code.
\<close>

datatype 'f cell =
  CNone | CStr string | CInt int | CBool bool | CFloat 'f | COther bool string

text \<open>The truth value of a cell, as \<^verbatim>\<open>if row[2] and row[3]\<close> tests it.\<close>

fun py_bool :: "'f float_ops \<Rightarrow> 'f cell \<Rightarrow> bool" where
  "py_bool P CNone = False"
| "py_bool P (CStr s) = (s \<noteq> [])"
| "py_bool P (CInt i) = (i \<noteq> 0)"
| "py_bool P (CBool b) = b"
| "py_bool P (CFloat x) = float_bool P x"
| "py_bool P (COther b s) = b"

text \<open>\<^verbatim>\<open>str(value)\<close>\<close>

fun py_str :: "'f float_ops \<Rightarrow> 'f cell \<Rightarrow> string" where
  "py_str P CNone = ''None''"
| "py_str P (CStr s) = s"
| "py_str P (CInt i) = str_int i"
| "py_str P (CBool b) = (if b then ''True'' else ''False'')"
| "py_str P (CFloat x) = float_str P x"
| "py_str P (COther b s) = s"

text \<open>\<^verbatim>\<open>isinstance(amount, (int, float))\<close>: \<^verbatim>\<open>bool\<close> is a subclass of \<^verbatim>\<open>int\<close>, with
  \<^verbatim>\<open>True\<close> counting as 1 in arithmetic.\<close>

fun as_number :: "'f cell \<Rightarrow> 'f number option" where
  "as_number (CInt i) = Some (PyInt i)"
| "as_number (CBool b) = Some (PyInt (if b then 1 else 0))"
| "as_number (CFloat x) = Some (PyFloat x)"
| "as_number CNone = None"
| "as_number (CStr s) = None"
| "as_number (COther b s) = None"

text \<open>\<^verbatim>\<open>value == "..."\<close>: only a \<^verbatim>\<open>str\<close> cell can equal a string.\<close>

fun eq_str :: "'f cell \<Rightarrow> string \<Rightarrow> bool" where
  "eq_str (CStr s) t = (s = t)"
| "eq_str CNone t = False"
| "eq_str (CInt i) t = False"
| "eq_str (CBool b) t = False"
| "eq_str (CFloat x) t = False"
| "eq_str (COther b s) t = False"

text \<open>
  A worksheet is the list of its rows, the header row first; openpyxl yields every row
  with the sheet's width (\<^verbatim>\<open>max_column\<close>), empty cells as \<^verbatim>\<open>None\<close>. A sheet of a
  workbook is a worksheet or a chart sheet, which has no \<^verbatim>\<open>iter_rows\<close>. A workbook has
  its sheets by title, in order, and the index of the active one. A file on disk is
  missing, cannot be loaded (\<^verbatim>\<open>load_workbook\<close> raises), or holds a workbook.
\<close>

type_synonym 'f rows = "'f cell list list"

datatype 'f sheet = Worksheet "'f rows" | Chartsheet

record 'f workbook =
  sheets :: "(string \<times> 'f sheet) list"
  active_index :: nat

datatype 'f xlsx_file = Missing | Unreadable | Xlsx "'f workbook"

text \<open>\<^verbatim>\<open>wb.active\<close>: the sheet at the active index, \<^verbatim>\<open>None\<close> when there is none.\<close>

definition active :: "'f workbook \<Rightarrow> 'f sheet option" where
  "active wb =
     (if active_index wb < length (sheets wb)
      then Some (snd (sheets wb ! active_index wb)) else None)"

text \<open>\<^verbatim>\<open>sheet.iter_rows(min_row=2, values_only=True)\<close>: every row but the first, whole.\<close>

definition iter_rows_from2 :: "'f rows \<Rightarrow> 'f rows" where
  "iter_rows_from2 rows = drop 1 rows"

text \<open>\<^verbatim>\<open>sheet.iter_rows(min_row=2, min_col=6, max_col=7, values_only=True)\<close>: columns F and
  G of every row but the first; a cell beyond the sheet's width reads as \<^verbatim>\<open>None\<close>.\<close>

definition cell_at :: "'f cell list \<Rightarrow> nat \<Rightarrow> 'f cell" where
  "cell_at row i = (if i < length row then row ! i else CNone)"

definition iter_rows_FG :: "'f rows \<Rightarrow> ('f cell \<times> 'f cell) list" where
  "iter_rows_FG rows = map (\<lambda>row. (cell_at row 5, cell_at row 6)) (drop 1 rows)"

text \<open>
  The world a request runs in: the reference file \<^verbatim>\<open>static/category_test_set.xlsx\<close>, the
  cash book at \<^verbatim>\<open>EXCEL_FILE_PATH\<close>, the configured \<^verbatim>\<open>EXCEL_SHEET_NAME\<close>, and the trace
  of what the functions did to the file system and the log, oldest first.
\<close>

datatype file_id = Test_set | Cash_book

datatype event =
  Path_exists file_id | Load_workbook file_id | Log_warning | Log_error py_error

record 'f world =
  test_set :: "'f xlsx_file"
  excel_file :: "'f xlsx_file"
  excel_sheet_name :: string
  trace :: "event list"

definition emit :: "event list \<Rightarrow> 'f world \<Rightarrow> 'f world" where
  "emit es w = w\<lparr>trace := trace w @ es\<rparr>"

subsection \<open>The category recommender\<close>

text \<open>
  A training item is the pair of a reference row's description (lower-cased) and category;
  a match is the dictionary \<^verbatim>\<open>{'category': ..., 'score': ..., 'example': ...}\<close>.
  The score is the quotient \<^verbatim>\<open>len(intersection) / len(union)\<close> of two natural numbers;
  it is kept as the exact rational, of which Python's float division is the correctly
  rounded value.
\<close>

type_synonym training_item = "string \<times> string"

record match =
  category :: string
  score :: rat
  example :: string

text \<open>
  The loop over \<^verbatim>\<open>sheet.iter_rows(min_row=2, values_only=True)\<close>. \<^verbatim>\<open>row[2]\<close> and
  \<^verbatim>\<open>row[3]\<close> raise \<^verbatim>\<open>IndexError\<close> on a row that is too short, and \<^verbatim>\<open>and\<close> evaluates
  \<^verbatim>\<open>row[3]\<close> only when \<^verbatim>\<open>row[2]\<close> is true.
\<close>

fun load_training :: "'f float_ops \<Rightarrow> 'f rows \<Rightarrow> py_error + training_item list" where
  "load_training P [] = Inr []"
| "load_training P (row # rows) =
     (if length row \<le> 2 then Inl IndexError
      else if py_bool P (row ! 2) then
        (if length row \<le> 3 then Inl IndexError
         else if py_bool P (row ! 3) then
           (case load_training P rows of
              Inl e \<Rightarrow> Inl e
            | Inr training_data \<Rightarrow>
                Inr ((lower (py_str P (row ! 2)), py_str P (row ! 3)) # training_data))
         else load_training P rows)
      else load_training P rows)"

text \<open>
  \<^verbatim>\<open>set(words)\<close>, kept as a list without repetitions; only the sizes of the intersection
  and of the union are read.
\<close>

definition py_set :: "'a list \<Rightarrow> 'a list" where
  "py_set xs = remdups xs"

definition intersection :: "'a list \<Rightarrow> 'a list \<Rightarrow> 'a list" where
  "intersection xs ys = filter (\<lambda>x. x \<in> set ys) xs"

definition union :: "'a list \<Rightarrow> 'a list \<Rightarrow> 'a list" where
  "union xs ys = xs @ filter (\<lambda>y. y \<notin> set xs) ys"

definition calculate_similarity :: "string \<Rightarrow> string \<Rightarrow> rat" where
  "calculate_similarity text1 text2 =
     (let words1 = py_set (str_split text1);
          words2 = py_set (str_split text2)
      in if words1 = [] \<or> words2 = [] then 0
         else of_nat (length (intersection words1 words2))
              / of_nat (length (union words1 words2)))"

text \<open>The loop that collects the matches: the items with a positive score, in row order.\<close>

fun find_matches :: "string \<Rightarrow> training_item list \<Rightarrow> match list" where
  "find_matches description [] = []"
| "find_matches description ((d, c) # items) =
     (let s = calculate_similarity description d
      in if s > 0
         then \<lparr>category = c, score = s, example = d\<rparr> # find_matches description items
         else find_matches description items)"

text \<open>
  \<^verbatim>\<open>sort(key=lambda x: x['score'], reverse=True)\<close> and \<^verbatim>\<open>sorted\<close> with the same
  arguments: Python's sort is stable, also with \<^verbatim>\<open>reverse=True\<close>, so entries of equal
  score keep their order. \<^const>\<open>sort_key\<close> is the stable insertion sort of the library; the
  negated key makes it descending.
\<close>

definition sort_by_score :: "match list \<Rightarrow> match list" where
  "sort_by_score ms = sort_key (\<lambda>m. - score m) ms"

text \<open>
  A Python \<^verbatim>\<open>dict\<close> keeps its keys in insertion order, and assigning to a key that is
  present keeps the key's position: an association list, updated in place or extended at
  the end.
\<close>

fun dict_set :: "('k \<times> 'v) list \<Rightarrow> 'k \<Rightarrow> 'v \<Rightarrow> ('k \<times> 'v) list" where
  "dict_set [] k v = [(k, v)]"
| "dict_set ((k', v') # kvs) k v =
     (if k' = k then (k, v) # kvs else (k', v') # dict_set kvs k v)"

definition dict_values :: "('k \<times> 'v) list \<Rightarrow> 'v list" where
  "dict_values kvs = map snd kvs"

text \<open>The loop over the sorted matches that fills \<^verbatim>\<open>seen_categories\<close>.\<close>

fun seen_categories :: "match list \<Rightarrow> (string \<times> match) list \<Rightarrow> (string \<times> match) list" where
  "seen_categories [] seen = seen"
| "seen_categories (m # ms) seen =
     (case map_of seen (category m) of
        None \<Rightarrow> seen_categories ms (dict_set seen (category m) m)
      | Some old \<Rightarrow>
          if score m > score old
          then seen_categories ms (dict_set seen (category m) m)
          else seen_categories ms seen)"

text \<open>
  The ranking, from the list of matches on: the sort, the loop over the sorted matches,
  the second sort of the dictionary's values, and the cut to five.
\<close>

definition top5 :: "match list \<Rightarrow> match list" where
  "top5 matches =
     (let sorted_matches = sort_by_score matches;
          seen = seen_categories sorted_matches []
      in take 5 (sort_by_score (dict_values seen)))"

text \<open>From the training data to the recommendations: the part of the body after the
  workbook is closed.\<close>

definition recommendations :: "string \<Rightarrow> training_item list \<Rightarrow> match list" where
  "recommendations description training_data = top5 (find_matches description training_data)"

text \<open>The part of the body that can raise: from \<^verbatim>\<open>wb.active\<close> on. Calling
  \<^verbatim>\<open>iter_rows\<close> on \<^verbatim>\<open>None\<close> or on a chart sheet raises \<^verbatim>\<open>AttributeError\<close>.\<close>

definition recommend_from :: "'f float_ops \<Rightarrow> string \<Rightarrow> 'f workbook \<Rightarrow> py_error + match list" where
  "recommend_from P description wb =
     (case active wb of
        None \<Rightarrow> Inl AttributeError
      | Some Chartsheet \<Rightarrow> Inl AttributeError
      | Some (Worksheet rows) \<Rightarrow>
          (case load_training P (iter_rows_from2 rows) of
             Inl e \<Rightarrow> Inl e
           | Inr training_data \<Rightarrow> Inr (recommendations description training_data)))"

text \<open>
  \<^verbatim>\<open>recommend_category\<close>. Its argument is the text \<^verbatim>\<open>str(data.get('description', ''))\<close>
  of the request; the result is the list sent as \<^verbatim>\<open>'recommendations'\<close> and the world
  after the call. Every exception is caught by the handler, which logs it and answers
  with the empty list.
\<close>

definition recommend_category :: "'f float_ops \<Rightarrow> string \<Rightarrow> 'f world \<Rightarrow> match list \<times> 'f world" where
  "recommend_category P raw w =
     (let description = lower (strip raw)
      in if description = [] \<or> length description < 3 then ([], w)
         else
           (case test_set w of
              Missing \<Rightarrow> ([], emit [Path_exists Test_set, Log_warning] w)
            | Unreadable \<Rightarrow>
                ([], emit [Path_exists Test_set, Load_workbook Test_set, Log_error LoadError] w)
            | Xlsx wb \<Rightarrow>
                (case recommend_from P description wb of
                   Inl e \<Rightarrow>
                     ([], emit [Path_exists Test_set, Load_workbook Test_set, Log_error e] w)
                 | Inr recs \<Rightarrow>
                     (recs, emit [Path_exists Test_set, Load_workbook Test_set] w))))"

subsection \<open>The balance\<close>

text \<open>The loop of \<^verbatim>\<open>calculate_total_amount\<close> over the pairs \<^verbatim>\<open>(af_bij, amount)\<close>.\<close>

fun total_loop ::
  "'f float_ops \<Rightarrow> ('f cell \<times> 'f cell) list \<Rightarrow> 'f number \<Rightarrow> py_error + 'f number" where
  "total_loop P [] tot = Inr tot"
| "total_loop P ((af_bij, amount) # rows) tot =
     (case as_number amount of
        None \<Rightarrow> total_loop P rows tot
      | Some a \<Rightarrow>
          if eq_str af_bij ''Af'' then
            (case py_sub P tot a of Inl e \<Rightarrow> Inl e | Inr t \<Rightarrow> total_loop P rows t)
          else if eq_str af_bij ''Bij'' then
            (case py_add P tot a of Inl e \<Rightarrow> Inl e | Inr t \<Rightarrow> total_loop P rows t)
          else total_loop P rows tot)"

definition calculate_total_amount :: "'f float_ops \<Rightarrow> 'f world \<Rightarrow> 'f number \<times> 'f world" where
  "calculate_total_amount P w =
     (case excel_file w of
        Missing \<Rightarrow> (PyInt 0, emit [Path_exists Cash_book] w)
      | Unreadable \<Rightarrow>
          (PyInt 0, emit [Path_exists Cash_book, Load_workbook Cash_book, Log_error LoadError] w)
      | Xlsx wb \<Rightarrow>
          (case map_of (sheets wb) (excel_sheet_name w) of
             None \<Rightarrow> (PyInt 0, emit [Path_exists Cash_book, Load_workbook Cash_book] w)
           | Some Chartsheet \<Rightarrow>
               (PyInt 0,
                emit [Path_exists Cash_book, Load_workbook Cash_book, Log_error AttributeError] w)
           | Some (Worksheet rows) \<Rightarrow>
               (case total_loop P (iter_rows_FG rows) (PyInt 0) of
                  Inl e \<Rightarrow>
                    (PyInt 0,
                     emit [Path_exists Cash_book, Load_workbook Cash_book, Log_error e] w)
                | Inr tot \<Rightarrow>
                    (py_round2 P tot,
                     emit [Path_exists Cash_book, Load_workbook Cash_book] w))))"

subsection \<open>Notions the properties are stated with\<close>

text \<open>
  The matches of a query in a world: what the loop over the training data collects, in
  row order, before any sorting; the empty list when the body does not get that far.
\<close>

definition matches_of :: "'f float_ops \<Rightarrow> string \<Rightarrow> 'f world \<Rightarrow> match list" where
  "matches_of P raw w =
     (case test_set w of
        Xlsx wb \<Rightarrow>
          (case active wb of
             Some (Worksheet rows) \<Rightarrow>
               (case load_training P (iter_rows_from2 rows) of
                  Inr training_data \<Rightarrow> find_matches (lower (strip raw)) training_data
                | Inl e \<Rightarrow> [])
           | Some Chartsheet \<Rightarrow> []
           | None \<Rightarrow> [])
      | Missing \<Rightarrow> []
      | Unreadable \<Rightarrow> [])"

text \<open>The first entry of every category, in the order of the list.\<close>

fun first_per_category :: "match list \<Rightarrow> match list" where
  "first_per_category [] = []"
| "first_per_category (m # ms) =
     m # filter (\<lambda>x. category x \<noteq> category m) (first_per_category ms)"

text \<open>The whitespace tokens of a text as a set, and the Jaccard index of two sets.\<close>

definition token_set :: "string \<Rightarrow> string set" where
  "token_set s = set (str_split s)"

definition jaccard_index :: "'a set \<Rightarrow> 'a set \<Rightarrow> rat" where
  "jaccard_index A B =
     (if A = {} \<or> B = {} then 0 else of_nat (card (A \<inter> B)) / of_nat (card (A \<union> B)))"





subsection \<open>Sheets for the examples\<close>

text \<open>
  The sheets of the examples hold no float, so the float primitives they are run with are
  the trivial ones on the one-element type.
\<close>

definition no_floats :: "unit float_ops" where
  "no_floats =
     \<lparr>float_add = (\<lambda>x y. ()), float_sub = (\<lambda>x y. ()), float_of_int = (\<lambda>i. Some ()),
      float_round2 = (\<lambda>x. ()), float_bool = (\<lambda>x. True), float_str = (\<lambda>x. [])\<rparr>"

definition example_sheet :: "unit rows" where
  "example_sheet =
     [[CStr ''Datum'', CStr ''Naam'', CStr ''Mededelingen'', CStr ''Tag''],
      [CNone, CNone, CStr ''Koffie en thee'', CStr ''Materiaal''],
      [CNone, CNone, CStr ''koffie voor training'', CStr ''Training''],
      [CNone, CNone, CStr ''Zaalhuur'', CNone],
      [CNone, CNone, CNone, CStr ''Overig''],
      [CNone, CNone, CStr ''koffie'', CStr ''Materiaal''],
      [CInt 7, CNone, CStr ''thee en KOFFIE'', CStr ''Kantine'']]"

definition example_world :: "unit world" where
  "example_world =
     \<lparr>test_set = Xlsx \<lparr>sheets = [(''Sheet1'', Worksheet example_sheet)], active_index = 0\<rparr>,
      excel_file = Missing, excel_sheet_name = ''Kasboek'', trace = []\<rparr>"

definition example_cash_book :: "unit rows" where
  "example_cash_book =
     [[CStr ''Datum'', CStr ''Naam / Omschrijving'', CStr ''Rekening'', CStr ''Tegenrekening'',
       CStr ''Code'', CStr ''Af Bij'', CStr ''Bedrag (EUR)''],
      [CNone, CStr ''Contributie'', CNone, CNone, CNone, CStr ''Bij'', CInt 100],
      [CNone, CStr ''Koffie'', CNone, CNone, CNone, CStr ''Af'', CInt 30],
      [CNone, CStr ''Onbekend'', CNone, CNone, CNone, CStr ''Af'', CStr ''n.v.t.''],
      [CNone, CStr ''Overboeking'', CNone, CNone, CNone, CStr ''af'', CInt 5],
      [CNone, CStr ''Leeg'', CNone, CNone, CNone, CNone, CNone]]"

definition cash_world :: "unit world" where
  "cash_world =
     \<lparr>test_set = Missing,
      excel_file = Xlsx \<lparr>sheets = [(''Kasboek'', Worksheet example_cash_book)], active_index = 0\<rparr>,
      excel_sheet_name = ''Kasboek'', trace = []\<rparr>"

section \<open>Properties\<close>

subsection \<open>Sorting and the dictionary\<close>

lemma set_sort_by_score: "set (sort_by_score ms) = set ms"
  by (simp add: sort_by_score_def)

lemma sorted_sort_by_score: "sorted (map (\<lambda>m. - score m) (sort_by_score ms))"
  by (simp add: sort_by_score_def)

lemma map_insort_key_distinct:
  "distinct (map g (insort_key f x xs)) = (g x \<notin> g ` set xs \<and> distinct (map g xs))"
  by (induction xs) (auto simp: set_insort_key)

lemma distinct_map_sort_key: "distinct (map g (sort_key f xs)) = distinct (map g xs)"
  by (induction xs) (auto simp: map_insort_key_distinct)

lemma distinct_sort_by_score:
  "distinct (map category (sort_by_score ms)) = distinct (map category ms)"
  by (simp add: sort_by_score_def distinct_map_sort_key)

lemma map_of_dict_set: "map_of (dict_set kvs k v) = (map_of kvs)(k \<mapsto> v)"
  by (induction kvs) (auto simp: fun_eq_iff)

lemma keys_dict_set: "fst ` set (dict_set kvs k v) = insert k (fst ` set kvs)"
proof (induction kvs)
  case Nil
  show ?case by simp
next
  case (Cons p kvs)
  obtain k' v' where p: "p = (k', v')" by (cases p)
  show ?case using Cons by (cases "k' = k") (simp_all add: p insert_commute)
qed

lemma distinct_dict_set:
  "distinct (map fst kvs) \<Longrightarrow> distinct (map fst (dict_set kvs k v))"
  by (induction kvs) (auto simp: keys_dict_set)

lemma set_dict_set: "set (dict_set kvs k v) \<subseteq> insert (k, v) (set kvs)"
  by (induction kvs) (auto split: if_splits)

lemma distinct_seen_categories:
  "distinct (map fst seen) \<Longrightarrow> distinct (map fst (seen_categories ms seen))"
  by (induction ms seen rule: seen_categories.induct)
     (auto simp: distinct_dict_set split: option.splits)

lemma seen_categories_keyed:
  "\<forall>(k, v) \<in> set seen. category v = k \<Longrightarrow>
   \<forall>(k, v) \<in> set (seen_categories ms seen). category v = k"
proof (induction ms seen rule: seen_categories.induct)
  case (1 seen)
  then show ?case by simp
next
  case (2 m ms seen)
  have upd: "\<forall>(k, v) \<in> set (dict_set seen (category m) m). category v = k"
    using "2.prems" set_dict_set [of seen "category m" m] by auto
  show ?case
    using 2 upd by (auto split: option.splits)
qed

lemma seen_categories_from:
  "set (dict_values (seen_categories ms seen)) \<subseteq> set ms \<union> set (dict_values seen)"
proof (induction ms seen rule: seen_categories.induct)
  case (1 seen)
  then show ?case by simp
next
  case (2 m ms seen)
  have upd: "set (dict_values (dict_set seen (category m) m)) \<subseteq> insert m (set (dict_values seen))"
    using set_dict_set [of seen "category m" m] by (auto simp: dict_values_def)
  show ?case
  proof (cases "map_of seen (category m)")
    case None
    then show ?thesis using "2.IH"(1) upd by auto
  next
    case (Some old)
    then show ?thesis using "2.IH"(2,3) upd by (cases "score m > score old") auto
  qed
qed

text \<open>The value kept for a category never gets a smaller score.\<close>

lemma seen_categories_grows:
  "map_of seen c = Some v \<Longrightarrow>
   \<exists>v'. map_of (seen_categories ms seen) c = Some v' \<and> score v \<le> score v'"
proof (induction ms seen arbitrary: v rule: seen_categories.induct)
  case (1 seen)
  then show ?case by simp
next
  case (2 m ms seen)
  show ?case
  proof (cases "map_of seen (category m)")
    case None
    then have "map_of (dict_set seen (category m) m) c = Some v"
      using "2.prems" by (auto simp: map_of_dict_set)
    then show ?thesis using "2.IH"(1) None by simp
  next
    case (Some old)
    show ?thesis
    proof (cases "score m > score old")
      case True
      show ?thesis
      proof (cases "c = category m")
        case True
        have "map_of (dict_set seen (category m) m) c = Some m"
          using True by (simp add: map_of_dict_set)
        from "2.IH"(2) [OF Some \<open>score m > score old\<close> this]
        obtain v' where "map_of (seen_categories ms (dict_set seen (category m) m)) c = Some v'"
          "score m \<le> score v'" by blast
        moreover have "v = old" using "2.prems" Some True by simp
        ultimately show ?thesis using Some \<open>score m > score old\<close> by auto
      next
        case False
        then have "map_of (dict_set seen (category m) m) c = Some v"
          using "2.prems" by (simp add: map_of_dict_set)
        from "2.IH"(2) [OF Some \<open>score m > score old\<close> this]
        show ?thesis using Some \<open>score m > score old\<close> by simp
      qed
    next
      case False
      then show ?thesis using "2.IH"(3) [OF Some False "2.prems"] Some by simp
    qed
  qed
qed

lemma seen_categories_best:
  "m \<in> set ms \<Longrightarrow>
   \<exists>v. map_of (seen_categories ms seen) (category m) = Some v \<and> score m \<le> score v"
proof (induction ms seen rule: seen_categories.induct)
  case (1 seen)
  then show ?case by simp
next
  case (2 x xs seen)
  show ?case
  proof (cases "m = x")
    case True
    show ?thesis
    proof (cases "map_of seen (category x)")
      case None
      have "map_of (dict_set seen (category x) x) (category x) = Some x"
        by (simp add: map_of_dict_set)
      from seen_categories_grows [OF this, of xs] show ?thesis
        using None True by simp
    next
      case (Some old)
      show ?thesis
      proof (cases "score x > score old")
        case gt: True
        have "map_of (dict_set seen (category x) x) (category x) = Some x"
          by (simp add: map_of_dict_set)
        from seen_categories_grows [OF this, of xs] show ?thesis
          using Some gt True by simp
      next
        case False
        from seen_categories_grows [OF Some, of xs] obtain v' where
          "map_of (seen_categories xs seen) (category x) = Some v'" "score old \<le> score v'"
          by blast
        then show ?thesis using Some False True by auto
      qed
    qed
  next
    case False
    then have "m \<in> set xs" using "2.prems" by simp
    then show ?thesis using "2.IH" by (auto split: option.splits)
  qed
qed

subsection \<open>Scores and matches\<close>

lemma length_intersection_le: "length (intersection xs ys) \<le> length (union xs ys)"
  by (simp add: intersection_def union_def le_trans [OF length_filter_le])

lemma calculate_similarity_le_1: "calculate_similarity a b \<le> 1"
proof -
  have "(of_nat m :: rat) / of_nat n \<le> 1" if "m \<le> n" for m n :: nat
    using that by (cases "n = 0") (simp_all add: divide_le_eq)
  then show ?thesis
    by (simp add: calculate_similarity_def Let_def length_intersection_le)
qed

lemma find_matches_sound:
  "m \<in> set (find_matches d td) \<Longrightarrow>
   0 < score m \<and> score m = calculate_similarity d (example m) \<and> (example m, category m) \<in> set td"
  by (induction d td rule: find_matches.induct) (auto simp: Let_def split: if_splits)

lemma find_matches_score: "m \<in> set (find_matches d td) \<Longrightarrow> 0 < score m \<and> score m \<le> 1"
  using find_matches_sound [of m d td] calculate_similarity_le_1 [of d "example m"] by simp

lemma matches_of_score: "m \<in> set (matches_of P raw w) \<Longrightarrow> 0 < score m \<and> score m \<le> 1"
  using find_matches_score
  by (auto simp: matches_of_def split: xlsx_file.splits option.splits sum.splits sheet.splits)

subsection \<open>The ranking\<close>

lemma top5_unfold:
  "top5 ms = take 5 (sort_by_score (dict_values (seen_categories (sort_by_score ms) [])))"
  by (simp add: top5_def Let_def)

lemma length_top5: "length (top5 ms) \<le> 5"
  by (simp add: top5_unfold)

lemma distinct_dict_values:
  "distinct (map fst kvs) \<Longrightarrow> \<forall>(k, v) \<in> set kvs. category v = k \<Longrightarrow>
   distinct (map category (dict_values kvs))"
proof -
  assume d: "distinct (map fst kvs)" and k: "\<forall>(k, v) \<in> set kvs. category v = k"
  have "map category (dict_values kvs) = map fst kvs"
    using k by (auto simp: dict_values_def)
  then show ?thesis using d by simp
qed

lemma distinct_top5: "distinct (map category (top5 ms))"
proof -
  let ?seen = "seen_categories (sort_by_score ms) []"
  have "\<forall>(k, v) \<in> set ?seen. category v = k"
    using seen_categories_keyed [of "[]" "sort_by_score ms"] by simp
  then have "distinct (map category (dict_values ?seen))"
    by (simp add: distinct_dict_values distinct_seen_categories)
  then have "distinct (map category (sort_by_score (dict_values ?seen)))"
    by (simp add: distinct_sort_by_score)
  then show ?thesis
    by (simp add: top5_unfold take_map [symmetric] distinct_take)
qed

lemma top5_subset: "set (top5 ms) \<subseteq> set ms"
proof -
  have "set (top5 ms) \<subseteq> set (dict_values (seen_categories (sort_by_score ms) []))"
    by (auto simp: top5_unfold set_sort_by_score dest: in_set_takeD)
  also have "\<dots> \<subseteq> set ms"
    using seen_categories_from [of "sort_by_score ms" "[]"]
    by (simp add: set_sort_by_score dict_values_def)
  finally show ?thesis .
qed

lemma top5_best:
  assumes e: "e \<in> set (top5 ms)" and m: "m \<in> set ms" and c: "category m = category e"
  shows "score m \<le> score e"
proof -
  let ?seen = "seen_categories (sort_by_score ms) []"
  have "e \<in> set (dict_values ?seen)"
    using e by (auto simp: top5_unfold set_sort_by_score dest: in_set_takeD)
  then obtain k where ke: "(k, e) \<in> set ?seen"
    by (auto simp: dict_values_def)
  have "\<forall>(k, v) \<in> set ?seen. category v = k"
    using seen_categories_keyed [of "[]" "sort_by_score ms"] by simp
  with ke have k: "k = category e" by auto
  have "distinct (map fst ?seen)"
    by (rule distinct_seen_categories) simp
  with ke k have look: "map_of ?seen (category e) = Some e"
    by simp
  have "m \<in> set (sort_by_score ms)"
    using m by (simp add: set_sort_by_score)
  from seen_categories_best [OF this, of "[]"] look c show ?thesis
    by auto
qed

lemma sorted_top5: "sorted (map (\<lambda>m. - score m) (top5 ms))"
  unfolding top5_unfold take_map [symmetric]
  by (rule sorted_wrt_take) (rule sorted_sort_by_score)

lemma top5_nonincreasing:
  "i < j \<Longrightarrow> j < length (top5 ms) \<Longrightarrow> score (top5 ms ! j) \<le> score (top5 ms ! i)"
  using sorted_top5 [of ms]
  by (auto simp: sorted_iff_nth_mono_less dest!: spec [of _ i] spec [of _ j])

text \<open>What the function returns, in every world.\<close>

lemma recommend_category_top5:
  "fst (recommend_category P raw w) =
     (if length (lower (strip raw)) < 3 then [] else top5 (matches_of P raw w))"
  by (auto simp: recommend_category_def recommend_from_def matches_of_def recommendations_def
        Let_def top5_unfold sort_by_score_def dict_values_def
      split: xlsx_file.splits option.splits sum.splits sheet.splits)

subsection \<open>The ranking on a sorted list\<close>

lemma set_first_per_category: "set (first_per_category ms) \<subseteq> set ms"
  by (induction ms) auto

lemma sorted_first_per_category:
  "sorted (map f ms) \<Longrightarrow> sorted (map f (first_per_category ms))"
proof (induction ms)
  case Nil
  show ?case by simp
next
  case (Cons m ms)
  then have "sorted (map f (first_per_category ms))" by simp
  then have "sorted (map f (filter (\<lambda>x. category x \<noteq> category m) (first_per_category ms)))"
    by (rule sorted_filter)
  moreover have "\<forall>x \<in> set (first_per_category ms). f m \<le> f x"
    using Cons.prems set_first_per_category [of ms] by auto
  ultimately show ?case by auto
qed

lemma dict_set_new: "k \<notin> fst ` set kvs \<Longrightarrow> dict_set kvs k v = kvs @ [(k, v)]"
  by (induction kvs) auto

lemma map_of_None_keys: "map_of kvs k = None \<longleftrightarrow> k \<notin> fst ` set kvs"
  by (simp add: map_of_eq_None_iff)

text \<open>On a list sorted by descending score the loop never replaces an entry.\<close>

lemma seen_categories_sorted:
  "sorted (map (\<lambda>m. - score m) ms) \<Longrightarrow>
   \<forall>(k, v) \<in> set seen. \<forall>m \<in> set ms. score m \<le> score v \<Longrightarrow>
   seen_categories ms seen =
     seen @ map (\<lambda>m. (category m, m))
              (filter (\<lambda>x. category x \<notin> fst ` set seen) (first_per_category ms))"
proof (induction ms arbitrary: seen)
  case Nil
  show ?case by simp
next
  case (Cons m ms)
  have sorted_ms: "sorted (map (\<lambda>m. - score m) ms)"
    and m_top: "\<forall>x \<in> set ms. score x \<le> score m"
    using Cons.prems(1) by auto
  show ?case
  proof (cases "map_of seen (category m)")
    case None
    then have new: "category m \<notin> fst ` set seen"
      by (simp add: map_of_None_keys)
    let ?seen' = "seen @ [(category m, m)]"
    have inv: "\<forall>(k, v) \<in> set ?seen'. \<forall>x \<in> set ms. score x \<le> score v"
      using Cons.prems(2) m_top by auto
    have "seen_categories (m # ms) seen = seen_categories ms ?seen'"
      using None new by (simp add: dict_set_new)
    also have "\<dots> = ?seen' @ map (\<lambda>m. (category m, m))
        (filter (\<lambda>x. category x \<notin> fst ` set ?seen') (first_per_category ms))"
      by (rule Cons.IH [OF sorted_ms inv])
    also have "filter (\<lambda>x. category x \<notin> fst ` set ?seen') (first_per_category ms) =
        filter (\<lambda>x. category x \<notin> fst ` set seen)
          (filter (\<lambda>x. category x \<noteq> category m) (first_per_category ms))"
      by (auto intro: filter_cong)
    finally show ?thesis using new by simp
  next
    case (Some old)
    then have old: "(category m, old) \<in> set seen"
      by (rule map_of_SomeD)
    then have le: "score m \<le> score old"
      using Cons.prems(2) by auto
    have known: "category m \<in> fst ` set seen"
      using old by force
    have inv: "\<forall>(k, v) \<in> set seen. \<forall>x \<in> set ms. score x \<le> score v"
      using Cons.prems(2) by auto
    have "seen_categories (m # ms) seen = seen_categories ms seen"
      using Some le by simp
    also have "\<dots> = seen @ map (\<lambda>m. (category m, m))
        (filter (\<lambda>x. category x \<notin> fst ` set seen) (first_per_category ms))"
      by (rule Cons.IH [OF sorted_ms inv])
    also have "filter (\<lambda>x. category x \<notin> fst ` set seen) (first_per_category ms) =
        filter (\<lambda>x. category x \<notin> fst ` set seen)
          (filter (\<lambda>x. category x \<noteq> category m) (first_per_category ms))"
    proof -
      have "(category x \<notin> fst ` set seen) =
          (category x \<noteq> category m \<and> category x \<notin> fst ` set seen)" for x :: match
        using known by metis
      then show ?thesis by simp
    qed
    finally show ?thesis using known by simp
  qed
qed

lemma top5_first_per_category:
  "top5 ms = take 5 (first_per_category (sort_by_score ms))"
proof -
  let ?S = "sort_by_score ms"
  have "seen_categories ?S [] = map (\<lambda>m. (category m, m)) (first_per_category ?S)"
    using seen_categories_sorted [of ?S "[]"] sorted_sort_by_score [of ms] by simp
  then have "dict_values (seen_categories ?S []) = first_per_category ?S"
    by (simp add: dict_values_def comp_def)
  moreover have "sort_by_score (first_per_category ?S) = first_per_category ?S"
    unfolding sort_by_score_def
    by (rule sort_key_id_if_sorted, rule sorted_first_per_category)
       (rule sorted_sort_by_score [unfolded sort_by_score_def])
  ultimately show ?thesis by (simp add: top5_unfold)
qed

lemma find_first_per_category:
  "e \<in> set (first_per_category ms) \<Longrightarrow> List.find (\<lambda>m. category m = category e) ms = Some e"
  by (induction ms) auto

lemma find_conj:
  "List.find P xs = Some e \<Longrightarrow> Q e \<Longrightarrow> List.find (\<lambda>x. P x \<and> Q x) xs = Some e"
  by (induction xs) (auto split: if_splits)

lemma find_filter_eq: "List.find (\<lambda>x. P x \<and> Q x) xs = List.find P (filter Q xs)"
  by (induction xs) auto

lemma sort_by_score_stable:
  "filter (\<lambda>m. score m = s) (sort_by_score ms) = filter (\<lambda>m. score m = s) ms"
  using sort_key_stable [of "\<lambda>m. - score m" "- s" ms] by (simp add: sort_by_score_def)

lemma top5_earliest:
  assumes "e \<in> set (top5 ms)"
  shows "List.find (\<lambda>m. category m = category e \<and> score m = score e) ms = Some e"
proof -
  have "e \<in> set (first_per_category (sort_by_score ms))"
    using assms by (auto simp: top5_first_per_category dest: in_set_takeD)
  then have "List.find (\<lambda>m. category m = category e) (sort_by_score ms) = Some e"
    by (rule find_first_per_category)
  then have "List.find (\<lambda>m. category m = category e \<and> score m = score e) (sort_by_score ms) = Some e"
    by (rule find_conj) simp
  then show ?thesis
    by (simp add: find_filter_eq sort_by_score_stable)
qed

subsection \<open>The similarity and the Jaccard index\<close>

lemma length_intersection:
  "distinct xs \<Longrightarrow> length (intersection xs ys) = card (set xs \<inter> set ys)"
proof -
  assume d: "distinct xs"
  have s: "set (intersection xs ys) = set xs \<inter> set ys"
    by (auto simp: intersection_def)
  have "distinct (intersection xs ys)"
    using d by (simp add: intersection_def)
  then show ?thesis
    using s distinct_card by fastforce
qed

lemma length_union:
  "distinct xs \<Longrightarrow> distinct ys \<Longrightarrow> length (union xs ys) = card (set xs \<union> set ys)"
proof -
  assume d: "distinct xs" "distinct ys"
  have s: "set (union xs ys) = set xs \<union> set ys"
    by (auto simp: union_def)
  have "distinct (union xs ys)"
    using d by (auto simp: union_def)
  then show ?thesis
    using s distinct_card by fastforce
qed

lemma calculate_similarity_jaccard:
  "calculate_similarity text1 text2 = jaccard_index (token_set text1) (token_set text2)"
  by (simp add: calculate_similarity_def jaccard_index_def token_set_def py_set_def Let_def
      length_intersection length_union)

lemma split_from_spaces:
  "\<forall>c \<in> set ws. isspace c \<Longrightarrow> split_from w ws = split_from w []"
proof (induction ws arbitrary: w)
  case Nil
  show ?case by simp
next
  case (Cons c ws)
  then have "split_from [] ws = split_from [] []" by simp
  then show ?case using Cons.prems by simp
qed

lemma split_from_append_spaces:
  "\<forall>c \<in> set ws. isspace c \<Longrightarrow> split_from w (s @ ws) = split_from w s"
  by (induction s arbitrary: w) (simp_all add: split_from_spaces)

lemma split_from_dropWhile: "split_from [] (dropWhile isspace s) = split_from [] s"
  by (induction s) simp_all

lemma str_split_strip: "str_split (strip s) = str_split s"
proof -
  let ?t = "dropWhile isspace s"
  have "?t = strip s @ rev (takeWhile isspace (rev ?t))"
    unfolding strip_def
    by (metis rev_append rev_rev_ident takeWhile_dropWhile_id)
  moreover have "\<forall>c \<in> set (rev (takeWhile isspace (rev ?t))). isspace c"
    by (auto dest: set_takeWhileD)
  ultimately have "split_from [] ?t = split_from [] (strip s)"
    using split_from_append_spaces by metis
  then show ?thesis
    by (simp add: str_split_def split_from_dropWhile)
qed

lemma isspace_lower_char: "isspace (lower_char c) = isspace c"
proof -
  have "of_char (char_of (n + 32) :: char) = n + 32" if "n \<le> 222" for n :: nat
    using that by simp
  then show ?thesis
    by (auto simp: isspace_def lower_char_def Let_def)
qed

lemma dropWhile_lower: "dropWhile isspace (lower s) = lower (dropWhile isspace s)"
  by (induction s) (simp_all add: lower_def isspace_lower_char)

lemma rev_lower: "rev (lower s) = lower (rev s)"
  by (simp add: lower_def rev_map)

lemma lower_strip: "lower (strip s) = strip (lower s)"
  by (simp add: strip_def dropWhile_lower rev_lower)

lemma token_set_query: "token_set (lower (strip raw)) = token_set (lower raw)"
  by (simp add: token_set_def lower_strip str_split_strip)

text \<open>A load that succeeds yields the rows with both cells true, in row order.\<close>

lemma load_training_Inr:
  "load_training P rows = Inr td \<Longrightarrow>
   td = map (\<lambda>row. (lower (py_str P (row ! 2)), py_str P (row ! 3)))
          (filter (\<lambda>row. py_bool P (row ! 2) \<and> py_bool P (row ! 3)) rows)"
  by (induction rows arbitrary: td) (auto split: if_splits sum.splits)

lemma find_matches_map_filter:
  "find_matches d td =
     map (\<lambda>(x, c). \<lparr>category = c, score = calculate_similarity d x, example = x\<rparr>)
       (filter (\<lambda>(x, c). 0 < calculate_similarity d x) td)"
  by (induction d td rule: find_matches.induct) (simp_all add: Let_def)

subsection \<open>Loading the reference rows\<close>

lemma load_training_wide:
  "\<forall>row \<in> set rows. 4 \<le> length row \<Longrightarrow>
   load_training P rows =
     Inr (map (\<lambda>row. (lower (py_str P (row ! 2)), py_str P (row ! 3)))
            (filter (\<lambda>row. py_bool P (row ! 2) \<and> py_bool P (row ! 3)) rows))"
  by (induction rows) auto

lemma load_training_skip:
  "4 \<le> length row \<Longrightarrow> \<not> (py_bool P (row ! 2) \<and> py_bool P (row ! 3)) \<Longrightarrow>
   load_training P (rows1 @ row # rows2) = load_training P (rows1 @ rows2)"
  by (induction rows1) auto

lemma load_training_from_rows:
  "load_training P rows = Inr td \<Longrightarrow> (d, c) \<in> set td \<Longrightarrow>
   \<exists>row \<in> set rows. 4 \<le> length row \<and> py_bool P (row ! 2) \<and> py_bool P (row ! 3) \<and>
      d = lower (py_str P (row ! 2)) \<and> c = py_str P (row ! 3)"
proof (induction rows arbitrary: td)
  case Nil
  then show ?case by simp
next
  case (Cons row rows)
  show ?case
  proof (cases "2 < length row \<and> py_bool P (row ! 2)")
    case True
    with Cons.prems(1) have wide: "3 < length row" and cat: "py_bool P (row ! 3) \<or> load_training P rows = Inr td"
      by (auto split: if_splits sum.splits)
    show ?thesis
    proof (cases "py_bool P (row ! 3)")
      case keep: True
      with True wide Cons.prems(1) obtain td' where
        td': "load_training P rows = Inr td'"
        "td = (lower (py_str P (row ! 2)), py_str P (row ! 3)) # td'"
        by (auto split: sum.splits)
      show ?thesis
      proof (cases "(d, c) \<in> set td'")
        case True
        from Cons.IH [OF td'(1) True] show ?thesis by auto
      next
        case False
        with Cons.prems(2) td'(2) have "d = lower (py_str P (row ! 2))" "c = py_str P (row ! 3)"
          by auto
        with True keep wide show ?thesis by auto
      qed
    next
      case False
      with True wide Cons.prems(1) have "load_training P rows = Inr td"
        by (auto split: if_splits)
      from Cons.IH [OF this Cons.prems(2)] show ?thesis by auto
    qed
  next
    case False
    with Cons.prems(1) have "load_training P rows = Inr td"
      by (auto split: if_splits)
    from Cons.IH [OF this Cons.prems(2)] show ?thesis by auto
  qed
qed

lemma matches_of_from_rows:
  assumes "m \<in> set (matches_of P raw w)"
  shows "\<exists>wb rows row. test_set w = Xlsx wb \<and> active wb = Some (Worksheet rows) \<and>
      row \<in> set (drop 1 rows) \<and> 4 \<le> length row \<and>
      py_bool P (row ! 2) \<and> py_bool P (row ! 3) \<and>
      example m = lower (py_str P (row ! 2)) \<and> category m = py_str P (row ! 3)"
proof (cases "test_set w")
  case (Xlsx wb)
  show ?thesis
  proof (cases "active wb")
    case None
    with Xlsx assms show ?thesis by (simp add: matches_of_def)
  next
    case (Some sheet)
    show ?thesis
    proof (cases sheet)
      case Chartsheet
      with Xlsx Some assms show ?thesis by (simp add: matches_of_def)
    next
      case (Worksheet rows)
      show ?thesis
      proof (cases "load_training P (drop 1 rows)")
        case (Inl e)
        with Xlsx Some Worksheet assms show ?thesis
          by (simp add: matches_of_def iter_rows_from2_def)
      next
        case (Inr td)
        with Xlsx Some Worksheet assms
        have "m \<in> set (find_matches (lower (strip raw)) td)"
          by (simp add: matches_of_def iter_rows_from2_def)
        from find_matches_sound [OF this] have "(example m, category m) \<in> set td"
          by simp
        from load_training_from_rows [OF Inr this] Xlsx Some Worksheet show ?thesis
          by blast
      qed
    qed
  qed
next
  case Missing
  with assms show ?thesis by (simp add: matches_of_def)
next
  case Unreadable
  with assms show ?thesis by (simp add: matches_of_def)
qed

subsection \<open>The world after a call\<close>

lemma test_set_emit: "test_set (emit es w) = test_set w"
  by (simp add: emit_def)

lemma recommend_category_same_test_set:
  "test_set w' = test_set w \<Longrightarrow>
   fst (recommend_category P raw w') = fst (recommend_category P raw w)"
  by (simp only: recommend_category_top5 matches_of_def)

lemma recommend_category_keeps_test_set:
  "test_set (snd (recommend_category P raw w)) = test_set w"
  by (simp add: recommend_category_def Let_def test_set_emit
        split: xlsx_file.splits sum.splits)

subsection \<open>The balance loop\<close>






subsection \<open>The examples, evaluated\<close>

lemma example_matches:
  "matches_of no_floats '' Koffie '' example_world =
     [\<lparr>category = ''Materiaal'', score = 1 / 3, example = ''koffie en thee''\<rparr>,
      \<lparr>category = ''Training'', score = 1 / 3, example = ''koffie voor training''\<rparr>,
      \<lparr>category = ''Materiaal'', score = 1, example = ''koffie''\<rparr>,
      \<lparr>category = ''Kantine'', score = 1 / 3, example = ''thee en koffie''\<rparr>]"
  by code_simp

lemma example_recommendations:
  "fst (recommend_category no_floats '' Koffie '' example_world) =
     [\<lparr>category = ''Materiaal'', score = 1, example = ''koffie''\<rparr>,
      \<lparr>category = ''Training'', score = 1 / 3, example = ''koffie voor training''\<rparr>,
      \<lparr>category = ''Kantine'', score = 1 / 3, example = ''thee en koffie''\<rparr>]"
  by code_simp

lemma example_training:
  "load_training no_floats (iter_rows_from2 example_sheet) =
     Inr [(''koffie en thee'', ''Materiaal''), (''koffie voor training'', ''Training''),
          (''koffie'', ''Materiaal''), (''thee en koffie'', ''Kantine'')]"
  by code_simp

lemma example_total: "fst (calculate_total_amount no_floats cash_world) = PyInt 70"
  by code_simp

section \<open>The claims\<close>

text \<open>
  C1. For every query, the result of \<^verbatim>\<open>recommend_category\<close> has at most 5 entries, the
  categories of its entries are pairwise distinct, and every entry is one of the matches of
  the query (so its example is the one its score was computed for) whose score is the
  highest among all matches of its category.
\<close>

theorem recommend_at_most_5_distinct_best:
  "length (fst (recommend_category P raw w)) \<le> 5 \<and>
   distinct (map category (fst (recommend_category P raw w))) \<and>
   (\<forall>e \<in> set (fst (recommend_category P raw w)).
      e \<in> set (matches_of P raw w) \<and>
      (\<forall>m \<in> set (matches_of P raw w). category m = category e \<longrightarrow> score m \<le> score e))"
  using length_top5 [of "matches_of P raw w"] distinct_top5 [of "matches_of P raw w"]
    top5_subset [of "matches_of P raw w"] top5_best [of _ "matches_of P raw w"]
  by (auto simp: recommend_category_top5)

theorem recommend_at_most_5_distinct_best_witness:
  "length (fst (recommend_category no_floats '' Koffie '' example_world)) = 3 \<and>
   map category (fst (recommend_category no_floats '' Koffie '' example_world)) =
     [''Materiaal'', ''Training'', ''Kantine''] \<and>
   \<lparr>category = ''Materiaal'', score = 1, example = ''koffie''\<rparr>
     \<in> set (fst (recommend_category no_floats '' Koffie '' example_world)) \<and>
   \<lparr>category = ''Materiaal'', score = 1 / 3, example = ''koffie en thee''\<rparr>
     \<in> set (matches_of no_floats '' Koffie '' example_world)"
  using recommend_at_most_5_distinct_best [of no_floats "'' Koffie ''" example_world]
  by (simp add: example_matches example_recommendations)

text \<open>
  C2. The score the recommender gives a reference row is the Jaccard index of the set of
  whitespace tokens of the lower-cased query and the set of whitespace tokens of the
  lower-cased description of the row: the matches of a query are the rows with both cells
  true and a positive index, each with that index as its score. What
  \<^verbatim>\<open>calculate_similarity\<close> computes on the trimmed and lower-cased query is this index, which
  is 0 when one of the two token sets is empty, and \<^verbatim>\<open>"koffie"\<close> against
  \<^verbatim>\<open>"koffie en thee"\<close> gives 1/3.
\<close>

theorem similarity_is_jaccard:
  "(load_training P rows = Inr td \<longrightarrow>
      find_matches (lower (strip raw)) td =
        map (\<lambda>row. \<lparr>category = py_str P (row ! 3),
                     score = jaccard_index (token_set (lower raw))
                               (token_set (lower (py_str P (row ! 2)))),
                     example = lower (py_str P (row ! 2))\<rparr>)
          (filter (\<lambda>row. py_bool P (row ! 2) \<and> py_bool P (row ! 3) \<and>
                     0 < jaccard_index (token_set (lower raw))
                           (token_set (lower (py_str P (row ! 2)))))
             rows)) \<and>
   calculate_similarity (lower (strip raw)) (lower ref) =
     jaccard_index (token_set (lower raw)) (token_set (lower ref)) \<and>
   (token_set (lower raw) = {} \<or> token_set (lower ref) = {} \<longrightarrow>
      calculate_similarity (lower (strip raw)) (lower ref) = 0) \<and>
   calculate_similarity (lower (strip ''koffie'')) (lower ''koffie en thee'') = 1 / 3"
proof -
  have j: "calculate_similarity (lower (strip raw)) x =
      jaccard_index (token_set (lower raw)) (token_set x)" for x
    by (simp add: calculate_similarity_jaccard token_set_query)
  have ex: "calculate_similarity (lower (strip ''koffie'')) (lower ''koffie en thee'') = 1 / 3"
    by code_simp
  have m: "find_matches (lower (strip raw)) td =
        map (\<lambda>row. \<lparr>category = py_str P (row ! 3),
                     score = jaccard_index (token_set (lower raw))
                               (token_set (lower (py_str P (row ! 2)))),
                     example = lower (py_str P (row ! 2))\<rparr>)
          (filter (\<lambda>row. py_bool P (row ! 2) \<and> py_bool P (row ! 3) \<and>
                     0 < jaccard_index (token_set (lower raw))
                           (token_set (lower (py_str P (row ! 2)))))
             rows)" if "load_training P rows = Inr td"
    unfolding load_training_Inr [OF that] find_matches_map_filter
    by (simp add: filter_map comp_def j conj_commute conj_left_commute cong: conj_cong)
  show ?thesis
    using m ex by (simp add: j jaccard_index_def)
qed

theorem similarity_is_jaccard_witness:
  "load_training no_floats (iter_rows_from2 example_sheet) =
     Inr [(''koffie en thee'', ''Materiaal''), (''koffie voor training'', ''Training''),
          (''koffie'', ''Materiaal''), (''thee en koffie'', ''Kantine'')] \<and>
   find_matches (lower (strip '' Koffie ''))
     [(''koffie en thee'', ''Materiaal''), (''koffie voor training'', ''Training''),
      (''koffie'', ''Materiaal''), (''thee en koffie'', ''Kantine'')] =
     [\<lparr>category = ''Materiaal'', score = 1 / 3, example = ''koffie en thee''\<rparr>,
      \<lparr>category = ''Training'', score = 1 / 3, example = ''koffie voor training''\<rparr>,
      \<lparr>category = ''Materiaal'', score = 1, example = ''koffie''\<rparr>,
      \<lparr>category = ''Kantine'', score = 1 / 3, example = ''thee en koffie''\<rparr>] \<and>
   jaccard_index (token_set (lower '' Koffie '')) (token_set (lower ''Koffie en Thee'')) = 1 / 3 \<and>
   calculate_similarity (lower (strip '' Koffie '')) (lower ''Koffie en Thee'') = 1 / 3 \<and>
   token_set (lower ''   '') = {} \<and>
   calculate_similarity (lower (strip ''   '')) (lower ''Koffie en Thee'') = 0"
proof -
  have blank: "token_set (lower ''   '') = {}"
    by code_simp
  have third: "jaccard_index (token_set (lower '' Koffie '')) (token_set (lower ''Koffie en Thee''))
      = 1 / 3"
    by code_simp
  have rows: "map (\<lambda>row. \<lparr>category = py_str no_floats (row ! 3),
                     score = jaccard_index (token_set (lower '' Koffie ''))
                               (token_set (lower (py_str no_floats (row ! 2)))),
                     example = lower (py_str no_floats (row ! 2))\<rparr>)
          (filter (\<lambda>row. py_bool no_floats (row ! 2) \<and> py_bool no_floats (row ! 3) \<and>
                     0 < jaccard_index (token_set (lower '' Koffie ''))
                           (token_set (lower (py_str no_floats (row ! 2)))))
             (iter_rows_from2 example_sheet)) =
     [\<lparr>category = ''Materiaal'', score = 1 / 3, example = ''koffie en thee''\<rparr>,
      \<lparr>category = ''Training'', score = 1 / 3, example = ''koffie voor training''\<rparr>,
      \<lparr>category = ''Materiaal'', score = 1, example = ''koffie''\<rparr>,
      \<lparr>category = ''Kantine'', score = 1 / 3, example = ''thee en koffie''\<rparr>]"
    by code_simp
  note at_query = similarity_is_jaccard [of no_floats "iter_rows_from2 example_sheet"
        "[(''koffie en thee'', ''Materiaal''), (''koffie voor training'', ''Training''),
          (''koffie'', ''Materiaal''), (''thee en koffie'', ''Kantine'')]"
        "'' Koffie ''" "''Koffie en Thee''"]
  from at_query example_training have "find_matches (lower (strip '' Koffie ''))
     [(''koffie en thee'', ''Materiaal''), (''koffie voor training'', ''Training''),
      (''koffie'', ''Materiaal''), (''thee en koffie'', ''Kantine'')] =
     map (\<lambda>row. \<lparr>category = py_str no_floats (row ! 3),
                     score = jaccard_index (token_set (lower '' Koffie ''))
                               (token_set (lower (py_str no_floats (row ! 2)))),
                     example = lower (py_str no_floats (row ! 2))\<rparr>)
          (filter (\<lambda>row. py_bool no_floats (row ! 2) \<and> py_bool no_floats (row ! 3) \<and>
                     0 < jaccard_index (token_set (lower '' Koffie ''))
                           (token_set (lower (py_str no_floats (row ! 2)))))
             (iter_rows_from2 example_sheet))"
    by blast
  then have found: "find_matches (lower (strip '' Koffie ''))
     [(''koffie en thee'', ''Materiaal''), (''koffie voor training'', ''Training''),
      (''koffie'', ''Materiaal''), (''thee en koffie'', ''Kantine'')] =
     [\<lparr>category = ''Materiaal'', score = 1 / 3, example = ''koffie en thee''\<rparr>,
      \<lparr>category = ''Training'', score = 1 / 3, example = ''koffie voor training''\<rparr>,
      \<lparr>category = ''Materiaal'', score = 1, example = ''koffie''\<rparr>,
      \<lparr>category = ''Kantine'', score = 1 / 3, example = ''thee en koffie''\<rparr>]"
    using rows by (rule trans)
  from at_query have "calculate_similarity (lower (strip '' Koffie '')) (lower ''Koffie en Thee'') =
      jaccard_index (token_set (lower '' Koffie '')) (token_set (lower ''Koffie en Thee''))"
    by blast
  then have score: "calculate_similarity (lower (strip '' Koffie '')) (lower ''Koffie en Thee'') = 1 / 3"
    using third by (rule trans)
  from similarity_is_jaccard [of no_floats "[]" "[]" "''   ''" "''Koffie en Thee''"] blank
  have zero: "calculate_similarity (lower (strip ''   '')) (lower ''Koffie en Thee'') = 0"
    by blast
  show ?thesis
    using example_training found third score blank zero by blast
qed

text \<open>
  C3. For every query whose trimmed and lower-cased form has fewer than 3 characters,
  \<^verbatim>\<open>recommend_category\<close> returns the empty list and leaves the world as it was: the trace
  gets no entry, so the reference file is not looked for, not loaded and nothing is logged,
  whatever the state of the reference file.
\<close>

theorem recommend_short_query:
  "length (lower (strip raw)) < 3 \<Longrightarrow> recommend_category P raw w = ([], w)"
  by (simp add: recommend_category_def)

theorem recommend_short_query_witness:
  "length (lower (strip ''  Ko '')) = 2 \<and>
   recommend_category no_floats ''  Ko '' example_world = ([], example_world)"
proof -
  have short: "length (lower (strip ''  Ko '')) = 2"
    by code_simp
  then have "length (lower (strip ''  Ko '')) < 3"
    by simp
  from recommend_short_query [OF this] short show ?thesis
    by simp
qed

text \<open>
  C4. For every query, the list returned by \<^verbatim>\<open>recommend_category\<close> is sorted by
  non-increasing score: for entries at positions i < j, the score at i is at least the
  score at j.
\<close>

theorem recommend_sorted_by_score:
  "i < j \<Longrightarrow> j < length (fst (recommend_category P raw w)) \<Longrightarrow>
   score (fst (recommend_category P raw w) ! j) \<le> score (fst (recommend_category P raw w) ! i)"
  using top5_nonincreasing [of i j "matches_of P raw w"]
  by (simp add: recommend_category_top5 split: if_splits)

theorem recommend_sorted_by_score_witness:
  "(0::nat) < 1 \<and> 1 < length (fst (recommend_category no_floats '' Koffie '' example_world)) \<and>
   score (fst (recommend_category no_floats '' Koffie '' example_world) ! 1) = 1 / 3 \<and>
   score (fst (recommend_category no_floats '' Koffie '' example_world) ! 0) = 1 \<and>
   score (fst (recommend_category no_floats '' Koffie '' example_world) ! 1)
     \<le> score (fst (recommend_category no_floats '' Koffie '' example_world) ! 0)"
proof -
  have len: "1 < length (fst (recommend_category no_floats '' Koffie '' example_world))"
    by (simp add: example_recommendations)
  have "score (fst (recommend_category no_floats '' Koffie '' example_world) ! 1)
     \<le> score (fst (recommend_category no_floats '' Koffie '' example_world) ! 0)"
    by (rule recommend_sorted_by_score [OF _ len]) simp
  then show ?thesis
    using len by (simp add: example_recommendations)
qed

text \<open>
  C5. For every query and every reference dataset, every entry returned by
  \<^verbatim>\<open>recommend_category\<close> has a score strictly greater than 0 and at most 1.
\<close>

theorem recommend_score_range:
  "e \<in> set (fst (recommend_category P raw w)) \<Longrightarrow> 0 < score e \<and> score e \<le> 1"
  using top5_subset [of "matches_of P raw w"] matches_of_score [of e P raw w]
  by (auto simp: recommend_category_top5 split: if_splits)

theorem recommend_score_range_witness:
  "\<lparr>category = ''Training'', score = 1 / 3, example = ''koffie voor training''\<rparr>
     \<in> set (fst (recommend_category no_floats '' Koffie '' example_world)) \<and>
   0 < score \<lparr>category = ''Training'', score = 1 / 3, example = ''koffie voor training''\<rparr> \<and>
   score \<lparr>category = ''Training'', score = 1 / 3, example = ''koffie voor training''\<rparr> \<le> 1"
proof -
  have mem: "\<lparr>category = ''Training'', score = 1 / 3, example = ''koffie voor training''\<rparr>
     \<in> set (fst (recommend_category no_floats '' Koffie '' example_world))"
    by (simp add: example_recommendations)
  from recommend_score_range [OF mem] mem show ?thesis
    by blast
qed

text \<open>
  C6. \<^verbatim>\<open>recommend_category\<close> returns a list in every world (its result has no error
  value): when the reference file is missing, when it cannot be loaded, and when anything
  raised after loading (\<open>recommend_from\<close> gives \<open>Inl e\<close>), the list is empty. A missing
  file gives the same list as a file whose sheet has only its header row, so the list does
  not tell the two apart.
\<close>

theorem recommend_swallows_errors:
  "(test_set w = Missing \<longrightarrow> fst (recommend_category P raw w) = []) \<and>
   (test_set w = Unreadable \<longrightarrow> fst (recommend_category P raw w) = []) \<and>
   (\<forall>wb e. test_set w = Xlsx wb \<and> recommend_from P (lower (strip raw)) wb = Inl e \<longrightarrow>
      fst (recommend_category P raw w) = []) \<and>
   fst (recommend_category P raw (w\<lparr>test_set := Missing\<rparr>)) =
   fst (recommend_category P raw
          (w\<lparr>test_set := Xlsx \<lparr>sheets = [(name, Worksheet [header])], active_index = 0\<rparr>\<rparr>))"
  by (auto simp: recommend_category_def Let_def recommend_from_def active_def
      iter_rows_from2_def recommendations_def top5_unfold sort_by_score_def dict_values_def)

theorem recommend_swallows_errors_witness:
  "test_set (example_world\<lparr>test_set := Missing\<rparr>) = Missing \<and>
   fst (recommend_category no_floats '' Koffie '' (example_world\<lparr>test_set := Missing\<rparr>)) = [] \<and>
   test_set (example_world\<lparr>test_set := Unreadable\<rparr>) = Unreadable \<and>
   fst (recommend_category no_floats '' Koffie '' (example_world\<lparr>test_set := Unreadable\<rparr>)) = [] \<and>
   recommend_from no_floats (lower (strip '' Koffie ''))
     \<lparr>sheets = [(''Sheet1'', Worksheet [[CStr ''a''], [CStr ''b'']])], active_index = 0\<rparr>
     = Inl IndexError \<and>
   fst (recommend_category no_floats '' Koffie ''
     (example_world\<lparr>test_set :=
        Xlsx \<lparr>sheets = [(''Sheet1'', Worksheet [[CStr ''a''], [CStr ''b'']])],
              active_index = 0\<rparr>\<rparr>)) = []"
proof -
  have m: "test_set (example_world\<lparr>test_set := Missing\<rparr>) = Missing"
    and u: "test_set (example_world\<lparr>test_set := Unreadable\<rparr>) = Unreadable"
    and x: "test_set (example_world\<lparr>test_set :=
        Xlsx \<lparr>sheets = [(''Sheet1'', Worksheet [[CStr ''a''], [CStr ''b'']])],
              active_index = 0\<rparr>\<rparr>) =
        Xlsx \<lparr>sheets = [(''Sheet1'', Worksheet [[CStr ''a''], [CStr ''b'']])],
              active_index = 0\<rparr>"
    by simp_all
  have raised: "recommend_from no_floats (lower (strip '' Koffie ''))
     \<lparr>sheets = [(''Sheet1'', Worksheet [[CStr ''a''], [CStr ''b'']])], active_index = 0\<rparr>
     = Inl IndexError"
    by code_simp
  from recommend_swallows_errors
    [of "example_world\<lparr>test_set := Missing\<rparr>" no_floats "'' Koffie ''"] m
  have r1: "fst (recommend_category no_floats '' Koffie '' (example_world\<lparr>test_set := Missing\<rparr>)) = []"
    by blast
  from recommend_swallows_errors
    [of "example_world\<lparr>test_set := Unreadable\<rparr>" no_floats "'' Koffie ''"] u
  have r2: "fst (recommend_category no_floats '' Koffie '' (example_world\<lparr>test_set := Unreadable\<rparr>)) = []"
    by blast
  from recommend_swallows_errors
    [of "example_world\<lparr>test_set :=
        Xlsx \<lparr>sheets = [(''Sheet1'', Worksheet [[CStr ''a''], [CStr ''b'']])],
              active_index = 0\<rparr>\<rparr>" no_floats "'' Koffie ''"] x raised
  have r3: "fst (recommend_category no_floats '' Koffie ''
     (example_world\<lparr>test_set :=
        Xlsx \<lparr>sheets = [(''Sheet1'', Worksheet [[CStr ''a''], [CStr ''b'']])],
              active_index = 0\<rparr>\<rparr>)) = []"
    by blast
  show ?thesis
    using m u raised r1 r2 r3 by blast
qed

text \<open>
  C7. The loader skips the first row and reads the description from column index 2 and the
  category from column index 3. Every match comes from a row after the first that has both
  cells and both of them true, so a row whose description or category is missing gives no
  match. On a sheet whose rows all have at least four cells (the format the reference file
  is described with) the load does not fail: the training data are the rows with both cells
  true, in row order, and a row with an empty description or category cell can be taken out
  of the sheet without changing what is loaded.
\<close>

theorem load_training_columns:
  "(\<forall>m \<in> set (matches_of P raw w).
      \<exists>wb rows row. test_set w = Xlsx wb \<and> active wb = Some (Worksheet rows) \<and>
        row \<in> set (drop 1 rows) \<and> 4 \<le> length row \<and>
        py_bool P (row ! 2) \<and> py_bool P (row ! 3) \<and>
        example m = lower (py_str P (row ! 2)) \<and> category m = py_str P (row ! 3)) \<and>
   ((\<forall>row \<in> set sheet. 4 \<le> length row) \<longrightarrow>
      load_training P (iter_rows_from2 sheet) =
        Inr (map (\<lambda>row. (lower (py_str P (row ! 2)), py_str P (row ! 3)))
               (filter (\<lambda>row. py_bool P (row ! 2) \<and> py_bool P (row ! 3)) (drop 1 sheet))) \<and>
      (\<forall>header rows1 row rows2.
         sheet = header # rows1 @ row # rows2 \<and> (row ! 2 = CNone \<or> row ! 3 = CNone) \<longrightarrow>
         load_training P (iter_rows_from2 sheet) =
         load_training P (iter_rows_from2 (header # rows1 @ rows2))))"
proof -
  have wide_sheet: "load_training P (iter_rows_from2 sheet) =
        Inr (map (\<lambda>row. (lower (py_str P (row ! 2)), py_str P (row ! 3)))
               (filter (\<lambda>row. py_bool P (row ! 2) \<and> py_bool P (row ! 3)) (drop 1 sheet))) \<and>
      (\<forall>header rows1 row rows2.
         sheet = header # rows1 @ row # rows2 \<and> (row ! 2 = CNone \<or> row ! 3 = CNone) \<longrightarrow>
         load_training P (iter_rows_from2 sheet) =
         load_training P (iter_rows_from2 (header # rows1 @ rows2)))"
    if wide: "\<forall>row \<in> set sheet. 4 \<le> length row"
  proof -
    have "load_training P (rows1 @ row # rows2) = load_training P (rows1 @ rows2)"
      if "sheet = header # rows1 @ row # rows2" "row ! 2 = CNone \<or> row ! 3 = CNone"
      for header rows1 row rows2
    proof -
      have "4 \<le> length row" using wide that(1) by simp
      moreover have "\<not> (py_bool P (row ! 2) \<and> py_bool P (row ! 3))"
        using that(2) by auto
      ultimately show ?thesis by (rule load_training_skip)
    qed
    moreover have "\<forall>row \<in> set (drop 1 sheet). 4 \<le> length row"
      using wide by (auto dest: in_set_dropD)
    ultimately show ?thesis
      by (auto simp: iter_rows_from2_def load_training_wide)
  qed
  show ?thesis
    using wide_sheet matches_of_from_rows [of _ P raw w] by blast
qed

theorem load_training_columns_witness:
  "list_all (\<lambda>row. 4 \<le> length row) example_sheet \<and>
   load_training no_floats (iter_rows_from2 example_sheet) =
     Inr [(''koffie en thee'', ''Materiaal''), (''koffie voor training'', ''Training''),
          (''koffie'', ''Materiaal''), (''thee en koffie'', ''Kantine'')] \<and>
   load_training no_floats (iter_rows_from2 example_sheet) =
   load_training no_floats (iter_rows_from2
     ([CStr ''Datum'', CStr ''Naam'', CStr ''Mededelingen'', CStr ''Tag''] #
      [[CNone, CNone, CStr ''Koffie en thee'', CStr ''Materiaal''],
       [CNone, CNone, CStr ''koffie voor training'', CStr ''Training'']] @
      [[CNone, CNone, CNone, CStr ''Overig''],
       [CNone, CNone, CStr ''koffie'', CStr ''Materiaal''],
       [CInt 7, CNone, CStr ''thee en KOFFIE'', CStr ''Kantine'']])) \<and>
   \<lparr>category = ''Kantine'', score = 1 / 3, example = ''thee en koffie''\<rparr>
     \<in> set (matches_of no_floats '' Koffie '' example_world)"
proof -
  have wide: "\<forall>row \<in> set example_sheet. 4 \<le> length row"
    by (simp add: example_sheet_def)
  have split_sheet: "example_sheet =
      [CStr ''Datum'', CStr ''Naam'', CStr ''Mededelingen'', CStr ''Tag''] #
      [[CNone, CNone, CStr ''Koffie en thee'', CStr ''Materiaal''],
       [CNone, CNone, CStr ''koffie voor training'', CStr ''Training'']] @
      [CNone, CNone, CStr ''Zaalhuur'', CNone] #
      [[CNone, CNone, CNone, CStr ''Overig''],
       [CNone, CNone, CStr ''koffie'', CStr ''Materiaal''],
       [CInt 7, CNone, CStr ''thee en KOFFIE'', CStr ''Kantine'']]"
    by (simp add: example_sheet_def)
  have missing: "[CNone, CNone, CStr ''Zaalhuur'', CNone :: unit cell] ! 3 = CNone"
    by simp
  have found: "\<lparr>category = ''Kantine'', score = 1 / 3, example = ''thee en koffie''\<rparr>
     \<in> set (matches_of no_floats '' Koffie '' example_world)"
    by (simp add: example_matches)
  from load_training_columns [of no_floats "'' Koffie ''" example_world example_sheet]
    wide split_sheet missing
  have "load_training no_floats (iter_rows_from2 example_sheet) =
   load_training no_floats (iter_rows_from2
     ([CStr ''Datum'', CStr ''Naam'', CStr ''Mededelingen'', CStr ''Tag''] #
      [[CNone, CNone, CStr ''Koffie en thee'', CStr ''Materiaal''],
       [CNone, CNone, CStr ''koffie voor training'', CStr ''Training'']] @
      [[CNone, CNone, CNone, CStr ''Overig''],
       [CNone, CNone, CStr ''koffie'', CStr ''Materiaal''],
       [CInt 7, CNone, CStr ''thee en KOFFIE'', CStr ''Kantine'']]))"
    by blast
  then show ?thesis
    using wide example_training found by (simp add: list_all_iff)
qed

text \<open>
  C8. \<^verbatim>\<open>recommend_category\<close> leaves the reference file as it is, and its result depends
  on the query and the reference file only: a second call with the same query, made in the
  world the first call left (whose trace has grown), returns the same list, and so does a
  call in any world with the same reference file.
\<close>

theorem recommend_deterministic:
  "test_set (snd (recommend_category P raw w)) = test_set w \<and>
   fst (recommend_category P raw (snd (recommend_category P raw w))) =
     fst (recommend_category P raw w) \<and>
   (\<forall>w'. test_set w' = test_set w \<longrightarrow>
      fst (recommend_category P raw w') = fst (recommend_category P raw w))"
  using recommend_category_keeps_test_set [of P raw w]
    recommend_category_same_test_set [of _ w P raw]
  by blast

theorem recommend_deterministic_witness:
  "fst (recommend_category no_floats '' Koffie ''
          (snd (recommend_category no_floats '' Koffie '' example_world))) =
     [\<lparr>category = ''Materiaal'', score = 1, example = ''koffie''\<rparr>,
      \<lparr>category = ''Training'', score = 1 / 3, example = ''koffie voor training''\<rparr>,
      \<lparr>category = ''Kantine'', score = 1 / 3, example = ''thee en koffie''\<rparr>] \<and>
   test_set (example_world\<lparr>trace := [Log_warning], excel_sheet_name := ''Blad1''\<rparr>) =
     test_set example_world \<and>
   fst (recommend_category no_floats '' Koffie ''
          (example_world\<lparr>trace := [Log_warning], excel_sheet_name := ''Blad1''\<rparr>)) =
     [\<lparr>category = ''Materiaal'', score = 1, example = ''koffie''\<rparr>,
      \<lparr>category = ''Training'', score = 1 / 3, example = ''koffie voor training''\<rparr>,
      \<lparr>category = ''Kantine'', score = 1 / 3, example = ''thee en koffie''\<rparr>]"
proof -
  have same: "test_set (example_world\<lparr>trace := [Log_warning], excel_sheet_name := ''Blad1''\<rparr>) =
     test_set example_world"
    by simp
  note det = recommend_deterministic [of no_floats "'' Koffie ''" example_world]
  from det have again: "fst (recommend_category no_floats '' Koffie ''
          (snd (recommend_category no_floats '' Koffie '' example_world))) =
      fst (recommend_category no_floats '' Koffie '' example_world)"
    by blast
  from det same have other: "fst (recommend_category no_floats '' Koffie ''
          (example_world\<lparr>trace := [Log_warning], excel_sheet_name := ''Blad1''\<rparr>)) =
      fst (recommend_category no_floats '' Koffie '' example_world)"
    by blast
  show ?thesis
    using same again other by (simp only: example_recommendations simp_thms)
qed

text \<open>
  C9. Ties are broken by the row order of the reference sheet. The result is the list of
  matches, sorted by descending score, with every entry dropped whose category occurred
  earlier in it, cut to five: so categories with equal best scores come in the order of
  their first entries in the sorted list. Every returned entry is the earliest match, in
  row order, among the matches of its category with its score, which is the highest of the
  category. The sort keeps matches of equal score in row order, and the loop over the
  sorted matches keeps the entry of a category unless the new score is strictly greater.
\<close>

theorem recommend_tie_breaking:
  "fst (recommend_category P raw w) =
     (if length (lower (strip raw)) < 3 then []
      else take 5 (first_per_category (sort_by_score (matches_of P raw w)))) \<and>
   (\<forall>e \<in> set (fst (recommend_category P raw w)).
      List.find (\<lambda>m. category m = category e \<and> score m = score e) (matches_of P raw w)
        = Some e \<and>
      (\<forall>m \<in> set (matches_of P raw w). category m = category e \<longrightarrow> score m \<le> score e)) \<and>
   (\<forall>s. filter (\<lambda>m. score m = s) (sort_by_score (matches_of P raw w)) =
        filter (\<lambda>m. score m = s) (matches_of P raw w)) \<and>
   (\<forall>m ms seen old. map_of seen (category m) = Some old \<and> \<not> score old < score m \<longrightarrow>
        seen_categories (m # ms) seen = seen_categories ms seen)"
  using top5_earliest [of _ "matches_of P raw w"] top5_best [of _ "matches_of P raw w"]
  by (auto simp: recommend_category_top5 top5_first_per_category [symmetric]
        sort_by_score_stable)

theorem recommend_tie_breaking_witness:
  "fst (recommend_category no_floats '' Koffie '' example_world) =
     take 5 (first_per_category (sort_by_score (matches_of no_floats '' Koffie '' example_world))) \<and>
   \<lparr>category = ''Training'', score = 1 / 3, example = ''koffie voor training''\<rparr>
     \<in> set (fst (recommend_category no_floats '' Koffie '' example_world)) \<and>
   List.find (\<lambda>m. category m = ''Training'' \<and> score m = 1 / 3)
     (matches_of no_floats '' Koffie '' example_world) =
     Some \<lparr>category = ''Training'', score = 1 / 3, example = ''koffie voor training''\<rparr> \<and>
   filter (\<lambda>m. score m = 1 / 3) (sort_by_score (matches_of no_floats '' Koffie '' example_world)) =
     [\<lparr>category = ''Materiaal'', score = 1 / 3, example = ''koffie en thee''\<rparr>,
      \<lparr>category = ''Training'', score = 1 / 3, example = ''koffie voor training''\<rparr>,
      \<lparr>category = ''Kantine'', score = 1 / 3, example = ''thee en koffie''\<rparr>]"
proof -
  have short: "\<not> length (lower (strip '' Koffie '')) < 3"
    by code_simp
  have sorted_matches:
    "sort_by_score
       [\<lparr>category = ''Materiaal'', score = 1 / 3, example = ''koffie en thee''\<rparr>,
        \<lparr>category = ''Training'', score = 1 / 3, example = ''koffie voor training''\<rparr>,
        \<lparr>category = ''Materiaal'', score = 1, example = ''koffie''\<rparr>,
        \<lparr>category = ''Kantine'', score = 1 / 3, example = ''thee en koffie''\<rparr>] =
       [\<lparr>category = ''Materiaal'', score = 1, example = ''koffie''\<rparr>,
        \<lparr>category = ''Materiaal'', score = 1 / 3, example = ''koffie en thee''\<rparr>,
        \<lparr>category = ''Training'', score = 1 / 3, example = ''koffie voor training''\<rparr>,
        \<lparr>category = ''Kantine'', score = 1 / 3, example = ''thee en koffie''\<rparr>]"
    by (simp add: sort_by_score_def)
  show ?thesis
    using recommend_tie_breaking [of no_floats "'' Koffie ''" example_world] short
    by (simp add: sorted_matches example_recommendations example_matches)
qed



end
